theory Spec2Isabelle
  imports Main "HOL-Library.Word"
begin

section \<open>Values\<close>

text \<open>
  The Python values the relay handles. A parsed JSON body and the request parts are
  Python dicts, lists, strings and numbers; \<open>JNull\<close> is \<open>None\<close>. A dict is an
  association list read with \<open>map_of\<close>. A float is kept as its literal, since nothing
  in the program computes with one.
\<close>

datatype json =
    JNull
  | JBool bool
  | JNum int
  | JFloat string
  | JStr string
  | JArr "json list"
  | JObj "(string \<times> json) list"

text \<open>The exceptions the program and its libraries raise.\<close>

datatype exn =
    RequestException
  | HTTPError int
  | JSONDecodeError
  | KeyError
  | IndexError
  | TypeError
  | AttributeError
  | TelegramError
  | PdfReadError

type_synonym byte = "8 word"

definition nl :: char where
  "nl = CHR 0x0A"

section \<open>Base64 (\<open>base64.b64encode\<close>, RFC 4648)\<close>

definition b64_alphabet :: string where
  "b64_alphabet = ''ABCDEFGHIJKLMNOPQRSTUVWXYZabcdefghijklmnopqrstuvwxyz0123456789+/''"

definition b64_char :: "nat \<Rightarrow> char" where
  "b64_char i = b64_alphabet ! i"

text \<open>
  Three bytes are 24 bits, written as four 6-bit digits; a last group of one or two
  bytes is filled with zero bits and padded with \<open>=\<close>. The result of
  \<open>.decode('utf-8')\<close> on these ASCII bytes is the same characters.
\<close>

fun b64encode :: "byte list \<Rightarrow> string" where
  "b64encode [] = []"
| "b64encode [a] =
     (let n = unat a * 65536
      in [b64_char (n div 262144), b64_char (n div 4096 mod 64), CHR ''='', CHR ''=''])"
| "b64encode [a, b] =
     (let n = unat a * 65536 + unat b * 256
      in [b64_char (n div 262144), b64_char (n div 4096 mod 64),
          b64_char (n div 64 mod 64), CHR ''=''])"
| "b64encode (a # b # c # rest) =
     (let n = unat a * 65536 + unat b * 256 + unat c
      in [b64_char (n div 262144), b64_char (n div 4096 mod 64),
          b64_char (n div 64 mod 64), b64_char (n mod 64)] @ b64encode rest)"




section \<open>The completion client\<close>

record http_response =
  status_code :: int
  json_body :: "json option"

text \<open>
  What the handlers do to the outside world, in order: asking the chat platform for a
  file, downloading it, and calling the completion client with a list of parts.
\<close>

datatype event =
    GetFile string
  | Download string
  | CallGemini "json list"

text \<open>
  The external collaborators: the chat platform's file service, the PDF library and
  the HTTP client. Each either raises or returns. \<open>pdf_pages\<close> is
  \<open>PdfReader(bio).pages\<close> with \<open>extract_text()\<close> applied to every page
  (\<open>None\<close> where a page yields nothing). \<open>post\<close> is \<open>requests.post\<close> on the JSON
  body; \<open>json_body\<close> of its response is \<open>None\<close> when the body does not parse.
\<close>

record env =
  get_file :: "string \<Rightarrow> exn + string"
  download :: "string \<Rightarrow> exn + byte list"
  pdf_pages :: "byte list \<Rightarrow> exn + string option list"
  post :: "json \<Rightarrow> exn + http_response"

definition request_body :: "json list \<Rightarrow> json" where
  "request_body parts = JObj [(''contents'', JArr [JObj [(''parts'', JArr parts)]])]"

text \<open>\<open>v[key]\<close> for a string key and \<open>v[0]\<close>, as Python evaluates them.\<close>

fun getitem :: "json \<Rightarrow> string \<Rightarrow> exn + json" where
  "getitem (JObj kvs) k = (case map_of kvs k of None \<Rightarrow> Inl KeyError | Some v \<Rightarrow> Inr v)"
| "getitem _ k = Inl TypeError"

fun getitem0 :: "json \<Rightarrow> exn + json" where
  "getitem0 (JArr []) = Inl IndexError"
| "getitem0 (JArr (x # xs)) = Inr x"
| "getitem0 (JStr []) = Inl IndexError"
| "getitem0 (JStr (c # cs)) = Inr (JStr [c])"
| "getitem0 (JObj kvs) = Inl KeyError"
| "getitem0 _ = Inl TypeError"

definition and_then :: "exn + 'a \<Rightarrow> ('a \<Rightarrow> exn + 'b) \<Rightarrow> exn + 'b" where
  "and_then r f = (case r of Inl e \<Rightarrow> Inl e | Inr v \<Rightarrow> f v)"

text \<open>\<open>data["candidates"][0]["content"]["parts"][0]["text"]\<close>\<close>

definition extract_text :: "json \<Rightarrow> exn + json" where
  "extract_text data =
     and_then (and_then (and_then (and_then (and_then
       (getitem data ''candidates'') getitem0)
       (\<lambda>v. getitem v ''content''))
       (\<lambda>v. getitem v ''parts''))
       getitem0)
       (\<lambda>v. getitem v ''text'')"

text \<open>\<open>resp.raise_for_status()\<close>: raises on a 4xx or 5xx status, and on no other.\<close>

definition raise_for_status :: "http_response \<Rightarrow> exn option" where
  "raise_for_status resp =
     (if 400 \<le> status_code resp \<and> status_code resp < 600
      then Some (HTTPError (status_code resp)) else None)"

definition fallback :: string where
  "fallback = ''Gemini returned an unexpected response.''"

definition call_gemini :: "env \<Rightarrow> json list \<Rightarrow> exn + json" where
  "call_gemini e parts =
     (case post e (request_body parts) of
        Inl err \<Rightarrow> Inl err
      | Inr resp \<Rightarrow>
          (case raise_for_status resp of
             Some err \<Rightarrow> Inl err
           | None \<Rightarrow>
               (case json_body resp of
                  None \<Rightarrow> Inl JSONDecodeError
                | Some data \<Rightarrow>
                    (case extract_text data of
                       Inl err \<Rightarrow> Inr (JStr fallback)
                     | Inr v \<Rightarrow> Inr v))))"

section \<open>Inbound messages\<close>

text \<open>
  The fields of \<open>update.message\<close> the handlers read. A photo size carries no MIME
  type on the platform; audio, voice, video and document attachments carry an optional
  one. \<open>effective_attachment\<close> is the platform binding's own property, read as a field.
\<close>

record photo_size =
  photo_file_id :: string
  width :: nat
  height :: nat
  file_size :: "nat option"

record attachment =
  file_id :: string
  mime_type :: "string option"

record message =
  message_text :: "string option"
  photo :: "photo_size list"
  document :: "attachment option"
  effective_attachment :: "attachment option"
  voice :: "attachment option"
  video :: "attachment option"

section \<open>Handlers\<close>

text \<open>
  A handler's outcome is the list of its external calls, in order, and either the
  exception that left the handler or the value it passed to \<open>reply_text\<close>.
\<close>

type_synonym outcome = "event list \<times> (exn + json)"

text \<open>\<open>str(x)\<close> of an optional string inside an f-string, and \<open>x or default\<close>.\<close>

definition py_str :: "string option \<Rightarrow> string" where
  "py_str x = (case x of None \<Rightarrow> ''None'' | Some s \<Rightarrow> s)"

definition py_or :: "string option \<Rightarrow> string \<Rightarrow> string" where
  "py_or x d = (case x of None \<Rightarrow> d | Some s \<Rightarrow> if s = [] then d else s)"

definition py_opt :: "string option \<Rightarrow> json" where
  "py_opt x = (case x of None \<Rightarrow> JNull | Some s \<Rightarrow> JStr s)"

fun join :: "string \<Rightarrow> string list \<Rightarrow> string" where
  "join sep [] = []"
| "join sep [x] = x"
| "join sep (x # y # ys) = x @ sep @ join sep (y # ys)"

definition text_part :: "json \<Rightarrow> json" where
  "text_part t = JObj [(''text'', t)]"

definition media_part :: "string \<Rightarrow> string \<Rightarrow> string \<Rightarrow> json" where
  "media_part kind mime b64 = JObj [(kind, JObj [(''mimeType'', JStr mime), (''data'', JStr b64)])]"

definition text_handler :: "env \<Rightarrow> message \<Rightarrow> outcome" where
  "text_handler e m =
     (let user_text = message_text m;
          parts = [text_part (py_opt user_text)]
      in ([CallGemini parts],
          Inr (case call_gemini e parts of
                 Inl err \<Rightarrow> JStr ''Error contacting Gemini.''
               | Inr reply \<Rightarrow> reply)))"

definition photo_handler :: "env \<Rightarrow> message \<Rightarrow> outcome" where
  "photo_handler e m =
     (if photo m = [] then ([], Inl IndexError)
      else
        (let fid = photo_file_id (last (photo m)) in
         case get_file e fid of
           Inl err \<Rightarrow> ([GetFile fid], Inl err)
         | Inr file \<Rightarrow>
             (case download e file of
                Inl err \<Rightarrow> ([GetFile fid, Download file], Inl err)
              | Inr bio \<Rightarrow>
                  (let b64 = b64encode bio;
                       parts = [text_part (JStr ''Please analyze this image:''),
                                media_part ''image'' ''image/jpeg'' b64]
                   in ([GetFile fid, Download file, CallGemini parts],
                       Inr (case call_gemini e parts of
                              Inl err \<Rightarrow> JStr ''Error processing image.''
                            | Inr reply \<Rightarrow> reply))))))"

definition document_handler :: "env \<Rightarrow> message \<Rightarrow> outcome" where
  "document_handler e m =
     (case document m of
        None \<Rightarrow> ([], Inl AttributeError)
      | Some doc \<Rightarrow>
          if mime_type doc = Some ''application/pdf'' then
            (let fid = file_id doc in
             case get_file e fid of
               Inl err \<Rightarrow> ([GetFile fid], Inl err)
             | Inr file \<Rightarrow>
                 (case download e file of
                    Inl err \<Rightarrow> ([GetFile fid, Download file], Inl err)
                  | Inr bio \<Rightarrow>
                      (case pdf_pages e bio of
                         Inl err \<Rightarrow> ([GetFile fid, Download file], Inl err)
                       | Inr pages \<Rightarrow>
                           (let text = join [nl] (map (\<lambda>page. py_or page []) pages);
                                prompt = ''Extracted text from PDF:'' @ [nl] @ text
                                           @ [nl, nl] @ ''Please summarize.'';
                                parts = [text_part (JStr prompt)]
                            in ([GetFile fid, Download file, CallGemini parts],
                                Inr (case call_gemini e parts of
                                       Inl err \<Rightarrow> JStr ''Error processing PDF.''
                                     | Inr reply \<Rightarrow> reply))))))
          else ([], Inr (JStr (''Unsupported document type: '' @ py_str (mime_type doc)))))"

definition audio_handler :: "env \<Rightarrow> message \<Rightarrow> outcome" where
  "audio_handler e m =
     (case (case effective_attachment m of Some a \<Rightarrow> Some a | None \<Rightarrow> voice m) of
        None \<Rightarrow> ([], Inl AttributeError)
      | Some audio \<Rightarrow>
          (let fid = file_id audio in
           case get_file e fid of
             Inl err \<Rightarrow> ([GetFile fid], Inl err)
           | Inr file \<Rightarrow>
               (case download e file of
                  Inl err \<Rightarrow> ([GetFile fid, Download file], Inl err)
                | Inr bio \<Rightarrow>
                    (let b64 = b64encode bio;
                         parts = [text_part (JStr ''Please transcribe or analyze this audio:''),
                                  media_part ''audio'' (py_or (mime_type audio) ''audio/ogg'') b64]
                     in ([GetFile fid, Download file, CallGemini parts],
                         Inr (case call_gemini e parts of
                                Inl err \<Rightarrow> JStr ''Error processing audio.''
                              | Inr reply \<Rightarrow> reply))))))"

definition video_handler :: "env \<Rightarrow> message \<Rightarrow> outcome" where
  "video_handler e m =
     (case video m of
        None \<Rightarrow> ([], Inl AttributeError)
      | Some vid \<Rightarrow>
          (let fid = file_id vid in
           case get_file e fid of
             Inl err \<Rightarrow> ([GetFile fid], Inl err)
           | Inr file \<Rightarrow>
               (case download e file of
                  Inl err \<Rightarrow> ([GetFile fid, Download file], Inl err)
                | Inr bio \<Rightarrow>
                    (let b64 = b64encode bio;
                         parts = [text_part (JStr ''Please analyze this video:''),
                                  media_part ''video'' ''video/mp4'' b64]
                     in ([GetFile fid, Download file, CallGemini parts],
                         Inr (case call_gemini e parts of
                                Inl err \<Rightarrow> JStr ''Error processing video.''
                              | Inr reply \<Rightarrow> reply))))))"

section \<open>Notions the properties are stated with\<close>

text \<open>
  The response shape the completion provider documents,
  \<open>{"candidates": [{"content": {"parts": [{"text": string}]}}]}\<close>, read structurally:
  \<open>text_at_path\<close> is the value under candidates, first element, content, parts, first
  element, text, when every step of that path exists; \<open>expected_shape\<close> also asks
  that value to be a string.
\<close>

fun field :: "string \<Rightarrow> json \<Rightarrow> json option" where
  "field k (JObj kvs) = map_of kvs k"
| "field k _ = None"

fun first_elem :: "json \<Rightarrow> json option" where
  "first_elem (JArr (x # xs)) = Some x"
| "first_elem _ = None"

definition text_at_path :: "json \<Rightarrow> json option" where
  "text_at_path data =
     Option.bind (Option.bind (Option.bind (Option.bind (Option.bind
       (field ''candidates'' data) first_elem)
       (field ''content''))
       (field ''parts''))
       first_elem)
       (field ''text'')"

definition expected_shape :: "json \<Rightarrow> bool" where
  "expected_shape data = (case text_at_path data of Some (JStr s) \<Rightarrow> True | _ \<Rightarrow> False)"

text \<open>What an evaluation yields when it does not raise.\<close>

definition returned :: "exn + 'a \<Rightarrow> 'a option" where
  "returned r = (case r of Inl err \<Rightarrow> None | Inr v \<Rightarrow> Some v)"

text \<open>A text that is some prefix followed by the block, with nothing after the block.\<close>

definition ends_with :: "string \<Rightarrow> string \<Rightarrow> bool" where
  "ends_with block t =
     (length block \<le> length t \<and> drop (length t - length block) t = block)"

definition resolution :: "photo_size \<Rightarrow> nat" where
  "resolution p = width p * height p"

text \<open>The fixed reply each handler substitutes when the completion client raises.\<close>

definition handlers :: "((env \<Rightarrow> message \<Rightarrow> outcome) \<times> string) list" where
  "handlers =
     [(text_handler, ''Error contacting Gemini.''),
      (photo_handler, ''Error processing image.''),
      (document_handler, ''Error processing PDF.''),
      (audio_handler, ''Error processing audio.''),
      (video_handler, ''Error processing video.'')]"

section \<open>Concrete inputs\<close>

definition reply_body :: "json \<Rightarrow> json" where
  "reply_body t =
     JObj [(''candidates'', JArr [JObj [(''content'', JObj [(''parts'', JArr [JObj [(''text'', t)]])])]])]"

definition platform :: "(exn + http_response) \<Rightarrow> env" where
  "platform r =
     \<lparr>get_file = (\<lambda>fid. Inr (''files/'' @ fid)),
      download = (\<lambda>file. Inr [77, 97, 110, 33]),
      pdf_pages = (\<lambda>bio. Inr [Some ''Hello'', None, Some ''World'']),
      post = (\<lambda>body. r)\<rparr>"

definition answers :: "int \<Rightarrow> json option \<Rightarrow> exn + http_response" where
  "answers code body = Inr \<lparr>status_code = code, json_body = body\<rparr>"

definition working :: env where
  "working = platform (answers 200 (Some (reply_body (JStr ''ok''))))"

definition no_message :: message where
  "no_message =
     \<lparr>message_text = None, photo = [], document = None, effective_attachment = None,
      voice = None, video = None\<rparr>"

definition text_message :: message where
  "text_message = no_message\<lparr>message_text := Some ''hi''\<rparr>"

definition thumb :: photo_size where
  "thumb = \<lparr>photo_file_id = ''p-small'', width = 90, height = 60, file_size = Some 1200\<rparr>"

definition full :: photo_size where
  "full = \<lparr>photo_file_id = ''p-large'', width = 1280, height = 853, file_size = Some 150000\<rparr>"

definition photo_message :: message where
  "photo_message = no_message\<lparr>photo := [thumb, full]\<rparr>"

definition pdf_message :: message where
  "pdf_message =
     no_message\<lparr>document := Some \<lparr>file_id = ''d1'', mime_type = Some ''application/pdf''\<rparr>\<rparr>"

definition zip_message :: message where
  "zip_message =
     no_message\<lparr>document := Some \<lparr>file_id = ''d2'', mime_type = Some ''application/zip''\<rparr>\<rparr>"



definition webm :: attachment where
  "webm = \<lparr>file_id = ''v1'', mime_type = Some ''video/webm''\<rparr>"

definition video_message :: message where
  "video_message = no_message\<lparr>effective_attachment := Some webm, video := Some webm\<rparr>"

section \<open>Base64 decoding inverts encoding\<close>


















section \<open>What each handler does\<close>

lemma text_handler_run:
  "text_handler e m =
     ([CallGemini [text_part (py_opt (message_text m))]],
      Inr (case call_gemini e [text_part (py_opt (message_text m))] of
             Inl err \<Rightarrow> JStr ''Error contacting Gemini.'' | Inr reply \<Rightarrow> reply))"
  by (simp add: text_handler_def Let_def)

lemma photo_handler_calls:
  assumes "CallGemini ps \<in> set (fst (photo_handler e m))"
  shows "\<exists>f bio. photo m \<noteq> []
           \<and> get_file e (photo_file_id (last (photo m))) = Inr f
           \<and> download e f = Inr bio
           \<and> ps = [text_part (JStr ''Please analyze this image:''),
                   media_part ''image'' ''image/jpeg'' (b64encode bio)]
           \<and> fst (photo_handler e m) =
               [GetFile (photo_file_id (last (photo m))), Download f, CallGemini ps]"
  using assms
  by (auto simp: photo_handler_def Let_def split: if_splits sum.splits)

lemma photo_handler_reply:
  assumes "CallGemini ps \<in> set (fst (photo_handler e m))"
  shows "snd (photo_handler e m) =
           Inr (case call_gemini e ps of
                  Inl err \<Rightarrow> JStr ''Error processing image.'' | Inr reply \<Rightarrow> reply)"
  using assms
  by (auto simp: photo_handler_def Let_def split: if_splits sum.splits)

lemma video_handler_calls:
  assumes "CallGemini ps \<in> set (fst (video_handler e m))"
  shows "\<exists>vid f bio. video m = Some vid
           \<and> get_file e (file_id vid) = Inr f
           \<and> download e f = Inr bio
           \<and> ps = [text_part (JStr ''Please analyze this video:''),
                   media_part ''video'' ''video/mp4'' (b64encode bio)]
           \<and> fst (video_handler e m) = [GetFile (file_id vid), Download f, CallGemini ps]"
  using assms
  by (auto simp: video_handler_def Let_def split: option.splits sum.splits)

lemma video_handler_reply:
  assumes "CallGemini ps \<in> set (fst (video_handler e m))"
  shows "snd (video_handler e m) =
           Inr (case call_gemini e ps of
                  Inl err \<Rightarrow> JStr ''Error processing video.'' | Inr reply \<Rightarrow> reply)"
  using assms
  by (auto simp: video_handler_def Let_def split: option.splits sum.splits)

lemma audio_handler_calls:
  assumes "CallGemini ps \<in> set (fst (audio_handler e m))"
  shows "\<exists>audio f bio.
             (effective_attachment m = Some audio
                \<or> effective_attachment m = None \<and> voice m = Some audio)
           \<and> get_file e (file_id audio) = Inr f
           \<and> download e f = Inr bio
           \<and> ps = [text_part (JStr ''Please transcribe or analyze this audio:''),
                   media_part ''audio'' (py_or (mime_type audio) ''audio/ogg'') (b64encode bio)]
           \<and> fst (audio_handler e m) = [GetFile (file_id audio), Download f, CallGemini ps]"
  using assms
  by (auto simp: audio_handler_def Let_def split: option.splits sum.splits)

lemma audio_handler_reply:
  assumes "CallGemini ps \<in> set (fst (audio_handler e m))"
  shows "snd (audio_handler e m) =
           Inr (case call_gemini e ps of
                  Inl err \<Rightarrow> JStr ''Error processing audio.'' | Inr reply \<Rightarrow> reply)"
  using assms
  by (auto simp: audio_handler_def Let_def split: option.splits sum.splits)

lemma document_handler_calls:
  assumes "CallGemini ps \<in> set (fst (document_handler e m))"
  shows "\<exists>doc f bio pages. document m = Some doc
           \<and> mime_type doc = Some ''application/pdf''
           \<and> get_file e (file_id doc) = Inr f
           \<and> download e f = Inr bio
           \<and> pdf_pages e bio = Inr pages
           \<and> ps = [text_part (JStr (''Extracted text from PDF:'' @ [nl]
                      @ join [nl] (map (\<lambda>page. py_or page []) pages)
                      @ [nl, nl] @ ''Please summarize.''))]
           \<and> fst (document_handler e m) = [GetFile (file_id doc), Download f, CallGemini ps]"
  using assms
  by (auto simp: document_handler_def Let_def split: option.splits sum.splits if_splits)

lemma document_handler_reply:
  assumes "CallGemini ps \<in> set (fst (document_handler e m))"
  shows "snd (document_handler e m) =
           Inr (case call_gemini e ps of
                  Inl err \<Rightarrow> JStr ''Error processing PDF.'' | Inr reply \<Rightarrow> reply)"
  using assms
  by (auto simp: document_handler_def Let_def split: option.splits sum.splits if_splits)

lemma text_handler_reply:
  assumes "CallGemini ps \<in> set (fst (text_handler e m))"
  shows "snd (text_handler e m) =
           Inr (case call_gemini e ps of
                  Inl err \<Rightarrow> JStr ''Error contacting Gemini.'' | Inr reply \<Rightarrow> reply)"
  using assms by (simp add: text_handler_run)

lemma returned_and_then:
  "returned (and_then r f) = Option.bind (returned r) (\<lambda>v. returned (f v))"
  by (cases r) (simp_all add: returned_def and_then_def)

lemma returned_getitem: "returned (getitem v k) = field k v"
  by (cases v) (simp_all add: returned_def split: option.splits)

lemma returned_getitem0_field:
  "Option.bind (returned (getitem0 v)) (field k) = Option.bind (first_elem v) (field k)"
  by (cases v rule: getitem0.cases) (simp_all add: returned_def)

lemma returned_getitem0_field_bind:
  "Option.bind (returned (getitem0 v)) (\<lambda>w. Option.bind (field k w) g)
     = Option.bind (first_elem v) (\<lambda>w. Option.bind (field k w) g)"
  by (cases v rule: getitem0.cases) (simp_all add: returned_def)

lemma bind_assoc_fn:
  "Option.bind (Option.bind x f) g = Option.bind x (\<lambda>v. Option.bind (f v) g)"
  by (cases x) simp_all

lemma returned_extract_text: "returned (extract_text data) = text_at_path data"
  by (simp add: extract_text_def text_at_path_def returned_and_then returned_getitem
      bind_assoc_fn returned_getitem0_field returned_getitem0_field_bind)

lemma success_not_raised:
  "200 \<le> status_code resp \<Longrightarrow> status_code resp < 300 \<Longrightarrow> raise_for_status resp = None"
  by (simp add: raise_for_status_def)

section \<open>When the completion client raises\<close>

lemma handlers_cases:
  assumes "(H, msg) \<in> set handlers"
  obtains "H = text_handler" "msg = ''Error contacting Gemini.''"
    | "H = photo_handler" "msg = ''Error processing image.''"
    | "H = document_handler" "msg = ''Error processing PDF.''"
    | "H = audio_handler" "msg = ''Error processing audio.''"
    | "H = video_handler" "msg = ''Error processing video.''"
proof -
  from assms have
    "(H, msg) = (text_handler, ''Error contacting Gemini.'')
     \<or> (H, msg) = (photo_handler, ''Error processing image.'')
     \<or> (H, msg) = (document_handler, ''Error processing PDF.'')
     \<or> (H, msg) = (audio_handler, ''Error processing audio.'')
     \<or> (H, msg) = (video_handler, ''Error processing video.'')"
    by (simp only: handlers_def list.set insert_iff empty_iff simp_thms)
  then show thesis
    by (elim disjE Pair_inject) (rule that; assumption)+
qed

lemma http_failure_raises:
  assumes "(\<exists>err. post e (request_body ps) = Inl err)
         \<or> (\<exists>resp. post e (request_body ps) = Inr resp
               \<and> 400 \<le> status_code resp \<and> status_code resp < 600)"
  shows "\<exists>err. call_gemini e ps = Inl err"
  using assms by (auto simp: call_gemini_def raise_for_status_def)

section \<open>The handlers on the concrete inputs\<close>

lemmas run_defs = working_def platform_def no_message_def answers_def call_gemini_def
  raise_for_status_def reply_body_def extract_text_def and_then_def b64_char_def
  b64_alphabet_def Let_def

lemma video_run:
  "video_handler working video_message =
     ([GetFile ''v1'', Download ''files/v1'',
       CallGemini [text_part (JStr ''Please analyze this video:''),
                   media_part ''video'' ''video/mp4'' ''TWFuIQ=='']],
      Inr (JStr ''ok''))"
  by (simp add: video_handler_def video_message_def webm_def run_defs)

lemma pdf_run:
  "document_handler working pdf_message =
     ([GetFile ''d1'', Download ''files/d1'',
       CallGemini [text_part (JStr (''Extracted text from PDF:'' @ [nl] @ ''Hello'' @ [nl, nl]
                     @ ''World'' @ [nl, nl] @ ''Please summarize.''))]],
      Inr (JStr ''ok''))"
  by (simp add: document_handler_def pdf_message_def py_or_def run_defs)

lemma photo_failed_run:
  "fst (photo_handler (platform (answers 500 None)) photo_message) =
     [GetFile ''p-large'', Download ''files/p-large'',
       CallGemini [text_part (JStr ''Please analyze this image:''),
                   media_part ''image'' ''image/jpeg'' ''TWFuIQ=='']]"
  by (simp add: photo_handler_def photo_message_def thumb_def full_def run_defs)

section \<open>Properties\<close>

text \<open>
  C1. A media part is to carry the MIME type the platform reports for the attachment,
  and the default of its kind only when none is reported, as the audio handler's
  \<open>audio.mime_type or "audio/ogg"\<close> does. The video handler does not read the
  reported type: for a video the platform reports as \<open>video/webm\<close>, the media part
  it passes to the completion client carries \<open>video/mp4\<close>.
\<close>

theorem video_reported_mime_dropped:
  "video video_message = Some \<lparr>file_id = ''v1'', mime_type = Some ''video/webm''\<rparr>
   \<and> fst (video_handler working video_message) =
       [GetFile ''v1'', Download ''files/v1'',
        CallGemini [text_part (JStr ''Please analyze this video:''),
                    media_part ''video'' ''video/mp4'' ''TWFuIQ=='']]"
proof -
  have "video video_message = Some \<lparr>file_id = ''v1'', mime_type = Some ''video/webm''\<rparr>"
    by (simp add: video_message_def webm_def no_message_def)
  then show ?thesis by (simp only: video_run fst_conv simp_thms)
qed

text \<open>
  C2, as the code has it. For a response with a 2xx status whose body parses as JSON,
  \<open>call_gemini\<close> raises nothing, and it returns the fixed string
  "Gemini returned an unexpected response." whenever the path candidates, first
  element, content, parts, first element, text does not exist in the body (a key is
  missing, a list is empty, or a value on the way is not a dict or a list).
\<close>

theorem malformed_response_fallback:
  assumes "post e (request_body parts) = Inr resp"
    and "200 \<le> status_code resp" and "status_code resp < 300"
    and "json_body resp = Some data"
  shows "(\<exists>v. call_gemini e parts = Inr v)
       \<and> (text_at_path data = None \<longrightarrow> call_gemini e parts = Inr (JStr fallback))"
proof -
  have c: "call_gemini e parts =
      (case extract_text data of Inl err \<Rightarrow> Inr (JStr fallback) | Inr v \<Rightarrow> Inr v)"
    using assms by (simp add: call_gemini_def success_not_raised)
  show ?thesis
  proof (cases "extract_text data")
    case (Inl err)
    with c show ?thesis by simp
  next
    case (Inr v)
    with returned_extract_text [of data] have "text_at_path data = Some v"
      by (simp add: returned_def)
    with c Inr show ?thesis by simp
  qed
qed

theorem malformed_response_fallback_witness:
  "post (platform (answers 200 (Some (JObj [(''candidates'', JArr [])]))))
        (request_body [text_part (JStr ''hi'')])
     = Inr \<lparr>status_code = 200, json_body = Some (JObj [(''candidates'', JArr [])])\<rparr>
   \<and> text_at_path (JObj [(''candidates'', JArr [])]) = None
   \<and> call_gemini (platform (answers 200 (Some (JObj [(''candidates'', JArr [])]))))
        [text_part (JStr ''hi'')]
     = Inr (JStr ''Gemini returned an unexpected response.'')"
proof -
  let ?data = "JObj [(''candidates'', JArr [])]"
  let ?e = "platform (answers 200 (Some ?data))"
  have p: "post ?e (request_body [text_part (JStr ''hi'')])
             = Inr \<lparr>status_code = 200, json_body = Some ?data\<rparr>"
    by (simp add: platform_def answers_def)
  have t: "text_at_path ?data = None"
    by (simp add: text_at_path_def)
  from malformed_response_fallback [OF p, of ?data] t
  have "call_gemini ?e [text_part (JStr ''hi'')] = Inr (JStr fallback)" by simp
  with p t show ?thesis by (simp add: fallback_def)
qed

text \<open>
  C2 as stated fails: a body of the right nesting whose text field is the number 42 is
  not of the expected shape, since the field is malformed, yet \<open>call_gemini\<close> returns
  42 and not the fixed string.
\<close>

theorem non_string_text_counterexample:
  "\<not> expected_shape (reply_body (JNum 42))
   \<and> call_gemini (platform (answers 200 (Some (reply_body (JNum 42))))) [text_part (JStr ''hi'')]
       = Inr (JNum 42)"
  by (simp add: expected_shape_def text_at_path_def reply_body_def call_gemini_def platform_def
      answers_def raise_for_status_def extract_text_def and_then_def)

text \<open>
  C3, as the code has it. For a document of MIME type \<open>application/pdf\<close> whose
  pages extract to "Hello", nothing (or the empty string) and "World", the document
  handler calls the completion client once, with exactly one part: a text part holding
  the heading line "Extracted text from PDF:", then the three pages joined by newlines
  ("Hello", an empty line, "World"), then an empty line and the summarization
  instruction "Please summarize." after the block.
\<close>

theorem pdf_pages_single_text_part:
  assumes "document m = Some doc" and "mime_type doc = Some ''application/pdf''"
    and "get_file e (file_id doc) = Inr f" and "download e f = Inr bio"
    and "pdf_pages e bio = Inr [Some ''Hello'', blank, Some ''World'']"
    and "blank = None \<or> blank = Some ''''"
  shows "fst (document_handler e m) =
           [GetFile (file_id doc), Download f,
            CallGemini [JObj [(''text'', JStr (''Extracted text from PDF:'' @ [nl]
                          @ ''Hello'' @ [nl, nl] @ ''World''
                          @ [nl, nl] @ ''Please summarize.''))]]]"
  using assms by (auto simp: document_handler_def Let_def py_or_def text_part_def)

theorem pdf_pages_single_text_part_witness:
  "document pdf_message = Some \<lparr>file_id = ''d1'', mime_type = Some ''application/pdf''\<rparr>
   \<and> get_file working ''d1'' = Inr ''files/d1''
   \<and> download working ''files/d1'' = Inr [77, 97, 110, 33]
   \<and> pdf_pages working [77, 97, 110, 33] = Inr [Some ''Hello'', None, Some ''World'']
   \<and> fst (document_handler working pdf_message) =
           [GetFile ''d1'', Download ''files/d1'',
            CallGemini [JObj [(''text'', JStr (''Extracted text from PDF:'' @ [nl]
                          @ ''Hello'' @ [nl, nl] @ ''World''
                          @ [nl, nl] @ ''Please summarize.''))]]]"
proof -
  let ?doc = "\<lparr>file_id = ''d1'', mime_type = Some ''application/pdf''\<rparr>"
  have d: "document pdf_message = Some ?doc"
    by (simp add: pdf_message_def no_message_def)
  have t: "mime_type ?doc = Some ''application/pdf''" by simp
  have g: "get_file working (file_id ?doc) = Inr ''files/d1''"
    by (simp add: working_def platform_def)
  have l: "download working ''files/d1'' = Inr [77, 97, 110, 33]"
    by (simp add: working_def platform_def)
  have p: "pdf_pages working [77, 97, 110, 33] = Inr [Some ''Hello'', None, Some ''World'']"
    by (simp add: working_def platform_def)
  have b: "(None :: string option) = None \<or> None = Some ''''" by simp
  from pdf_pages_single_text_part [OF d t g l p b] d g l p show ?thesis by simp
qed

text \<open>
  C3 as stated fails: the block is not wrapped by a prefix alone. The text the handler
  sends does not end with the block; what precedes the block is a heading, and the
  summarization instruction follows it.
\<close>

theorem instruction_after_block_counterexample:
  "fst (document_handler working pdf_message) =
     [GetFile ''d1'', Download ''files/d1'',
      CallGemini [text_part (JStr (''Extracted text from PDF:'' @ [nl] @ ''Hello'' @ [nl, nl]
                    @ ''World'' @ [nl, nl] @ ''Please summarize.''))]]
   \<and> \<not> ends_with (''Hello'' @ [nl, nl] @ ''World'')
         (''Extracted text from PDF:'' @ [nl] @ ''Hello'' @ [nl, nl]
            @ ''World'' @ [nl, nl] @ ''Please summarize.'')"
proof -
  have "\<not> ends_with (''Hello'' @ [nl, nl] @ ''World'')
         (''Extracted text from PDF:'' @ [nl] @ ''Hello'' @ [nl, nl]
            @ ''World'' @ [nl, nl] @ ''Please summarize.'')"
    by (simp add: ends_with_def nl_def)
  then show ?thesis by (simp only: pdf_run fst_conv simp_thms)
qed

text \<open>
  C4, as the code has it. For every handler that has reached the completion client, if
  the HTTP request raises a transport error or the response has a 4xx or 5xx status,
  \<open>call_gemini\<close> raises and the handler replies with its own fixed error string, not
  with the error.
\<close>

theorem http_failure_reply:
  assumes "(H, msg) \<in> set handlers"
    and "CallGemini ps \<in> set (fst (H e m))"
    and "(\<exists>err. post e (request_body ps) = Inl err)
         \<or> (\<exists>resp. post e (request_body ps) = Inr resp
               \<and> 400 \<le> status_code resp \<and> status_code resp < 600)"
  shows "(\<exists>err. call_gemini e ps = Inl err) \<and> snd (H e m) = Inr (JStr msg)"
proof -
  from http_failure_raises [OF assms(3)] obtain err where r: "call_gemini e ps = Inl err" ..
  from assms(1) have "snd (H e m) = Inr (JStr msg)"
  proof (cases rule: handlers_cases)
    case 1
    with assms(2) text_handler_reply [of ps e m] r show ?thesis by simp
  next
    case 2
    with assms(2) photo_handler_reply [of ps e m] r show ?thesis by simp
  next
    case 3
    with assms(2) document_handler_reply [of ps e m] r show ?thesis by simp
  next
    case 4
    with assms(2) audio_handler_reply [of ps e m] r show ?thesis by simp
  next
    case 5
    with assms(2) video_handler_reply [of ps e m] r show ?thesis by simp
  qed
  with r show ?thesis by blast
qed

theorem http_failure_reply_witness:
  "(photo_handler, ''Error processing image.'') \<in> set handlers
   \<and> CallGemini [text_part (JStr ''Please analyze this image:''),
                 media_part ''image'' ''image/jpeg'' ''TWFuIQ=='']
       \<in> set (fst (photo_handler (platform (answers 500 None)) photo_message))
   \<and> post (platform (answers 500 None))
        (request_body [text_part (JStr ''Please analyze this image:''),
                       media_part ''image'' ''image/jpeg'' ''TWFuIQ==''])
       = Inr \<lparr>status_code = 500, json_body = None\<rparr>
   \<and> snd (photo_handler (platform (answers 500 None)) photo_message)
       = Inr (JStr ''Error processing image.'')"
proof -
  let ?e = "platform (answers 500 None)"
  let ?ps = "[text_part (JStr ''Please analyze this image:''),
              media_part ''image'' ''image/jpeg'' ''TWFuIQ=='']"
  have h: "(photo_handler, ''Error processing image.'') \<in> set handlers"
    by (simp add: handlers_def)
  have c: "CallGemini ?ps \<in> set (fst (photo_handler ?e photo_message))"
    by (simp add: photo_failed_run)
  have p: "post ?e (request_body ?ps) = Inr \<lparr>status_code = 500, json_body = None\<rparr>"
    by (simp add: platform_def answers_def)
  then have f: "(\<exists>err. post ?e (request_body ?ps) = Inl err)
         \<or> (\<exists>resp. post ?e (request_body ?ps) = Inr resp
               \<and> 400 \<le> status_code resp \<and> status_code resp < 600)"
    by simp
  from http_failure_reply [OF h c f] h c p show ?thesis by blast
qed

text \<open>
  C4 as stated fails for a status that is neither 2xx nor 4xx/5xx:
  \<open>raise_for_status\<close> lets a 302 response pass, so with a well-formed body the text
  handler replies with the body's text and not with "Error contacting Gemini.".
\<close>

theorem redirect_status_counterexample:
  "text_handler (platform (answers 302 (Some (reply_body (JStr ''ok''))))) text_message
     = ([CallGemini [text_part (JStr ''hi'')]], Inr (JStr ''ok''))"
  by (simp add: text_handler_def text_message_def py_opt_def run_defs)

text \<open>
  C5. For a document whose MIME type is not \<open>application/pdf\<close>, the document
  handler makes no external call at all, so no request to the completion provider, and
  replies "Unsupported document type: " followed by the MIME type as Python prints it.
\<close>

theorem unsupported_document_reply:
  assumes "document m = Some doc" and "mime_type doc \<noteq> Some ''application/pdf''"
  shows "document_handler e m =
           ([], Inr (JStr (''Unsupported document type: '' @ py_str (mime_type doc))))"
  using assms by (simp add: document_handler_def)

theorem unsupported_document_reply_witness:
  "document zip_message = Some \<lparr>file_id = ''d2'', mime_type = Some ''application/zip''\<rparr>
   \<and> Some ''application/zip'' \<noteq> Some ''application/pdf''
   \<and> document_handler working zip_message
        = ([], Inr (JStr ''Unsupported document type: application/zip''))"
proof -
  let ?doc = "\<lparr>file_id = ''d2'', mime_type = Some ''application/zip''\<rparr>"
  have d: "document zip_message = Some ?doc"
    by (simp add: zip_message_def no_message_def)
  have n: "mime_type ?doc \<noteq> Some ''application/pdf''" by simp
  from unsupported_document_reply [OF d n, of working] d show ?thesis
    by (simp add: py_str_def)
qed

text \<open>
  C6. For a photo message offering one or more variants, listed by the platform in
  ascending order of size, the variant the photo handler asks for and downloads is the
  largest of those offered, which is the last entry of the list: the handler's first
  call asks for that variant's file and for no other, and when the platform hands the
  file over, its second call downloads that file and no other.
\<close>

theorem photo_handler_downloads_largest:
  assumes "photo m \<noteq> []" and "sorted (map size_of (photo m))"
  shows "\<exists>v \<in> set (photo m).
           v = last (photo m)
         \<and> (\<forall>p \<in> set (photo m). size_of p \<le> size_of v)
         \<and> take 1 (fst (photo_handler e m)) = [GetFile (photo_file_id v)]
         \<and> (\<forall>f. get_file e (photo_file_id v) = Inr f \<longrightarrow>
               take 2 (fst (photo_handler e m)) = [GetFile (photo_file_id v), Download f]
             \<and> (\<forall>g. Download g \<in> set (fst (photo_handler e m)) \<longrightarrow> g = f))
         \<and> (\<forall>fid. GetFile fid \<in> set (fst (photo_handler e m)) \<longrightarrow> fid = photo_file_id v)"
proof (intro bexI conjI allI impI ballI)
  show "last (photo m) \<in> set (photo m)" using assms(1) by simp
  show "last (photo m) = last (photo m)" ..
next
  fix p
  assume p: "p \<in> set (photo m)"
  from assms(1) obtain ys y where "photo m = ys @ [y]"
    by (cases "photo m" rule: rev_cases) auto
  with assms(2) p show "size_of p \<le> size_of (last (photo m))"
    by (auto simp: sorted_append)
next
  show "take 1 (fst (photo_handler e m)) = [GetFile (photo_file_id (last (photo m)))]"
    using assms(1) by (auto simp: photo_handler_def Let_def split: sum.splits)
next
  fix f
  assume "get_file e (photo_file_id (last (photo m))) = Inr f"
  then show "take 2 (fst (photo_handler e m))
               = [GetFile (photo_file_id (last (photo m))), Download f]"
    using assms(1) by (auto simp: photo_handler_def Let_def split: sum.splits)
next
  fix f g
  assume "get_file e (photo_file_id (last (photo m))) = Inr f"
    and "Download g \<in> set (fst (photo_handler e m))"
  then show "g = f"
    using assms(1) by (auto simp: photo_handler_def Let_def split: sum.splits)
next
  fix fid
  assume "GetFile fid \<in> set (fst (photo_handler e m))"
  then show "fid = photo_file_id (last (photo m))"
    using assms(1) by (auto simp: photo_handler_def Let_def split: sum.splits)
qed

theorem photo_handler_downloads_largest_witness:
  "photo photo_message \<noteq> []
   \<and> sorted (map resolution (photo photo_message))
   \<and> get_file working ''p-large'' = Inr ''files/p-large''
   \<and> full \<in> set (photo photo_message)
   \<and> resolution thumb \<le> resolution full
   \<and> take 2 (fst (photo_handler working photo_message))
       = [GetFile ''p-large'', Download ''files/p-large'']"
proof -
  have n: "photo photo_message \<noteq> []"
    by (simp add: photo_message_def no_message_def)
  have s: "sorted (map resolution (photo photo_message))"
    by (simp add: photo_message_def no_message_def resolution_def thumb_def full_def)
  have l: "last (photo photo_message) = full"
    by (simp add: photo_message_def no_message_def)
  have i: "photo_file_id full = ''p-large''" by (simp add: full_def)
  have g: "get_file working ''p-large'' = Inr ''files/p-large''"
    by (simp add: working_def platform_def)
  have t: "thumb \<in> set (photo photo_message)"
    by (simp add: photo_message_def no_message_def)
  from photo_handler_downloads_largest [OF n s, of working] l i g t
  have "full \<in> set (photo photo_message)"
    and "resolution thumb \<le> resolution full"
    and "take 2 (fst (photo_handler working photo_message))
           = [GetFile ''p-large'', Download ''files/p-large'']"
    by auto
  with n s g show ?thesis by simp
qed

text \<open>
  C7. For a text message, the parts passed to the completion client are exactly one
  text part, and its string is the message body unchanged.
\<close>

theorem text_message_sole_part:
  assumes "message_text m = Some body"
  shows "fst (text_handler e m) = [CallGemini [JObj [(''text'', JStr body)]]]"
  using assms by (simp add: text_handler_run py_opt_def text_part_def)

theorem text_message_sole_part_witness:
  "message_text text_message = Some ''hi''
   \<and> fst (text_handler working text_message) = [CallGemini [JObj [(''text'', JStr ''hi'')]]]"
proof -
  have h: "message_text text_message = Some ''hi''"
    by (simp add: text_message_def no_message_def)
  from text_message_sole_part [OF h] h show ?thesis by simp
qed

text \<open>
  C8. Whichever of the five handlers calls the completion client, the list of parts it
  passes is not empty.
\<close>

theorem parts_never_empty:
  assumes "H \<in> {text_handler, photo_handler, document_handler, audio_handler, video_handler}"
    and "CallGemini ps \<in> set (fst (H e m))"
  shows "ps \<noteq> []"
proof -
  consider "H = text_handler" | "H = photo_handler" | "H = document_handler"
    | "H = audio_handler" | "H = video_handler"
    using assms(1) by blast
  then show ?thesis
  proof cases
    case 1
    with assms(2) show ?thesis by (simp add: text_handler_run)
  next
    case 2
    with assms(2) photo_handler_calls [of ps e m] show ?thesis by auto
  next
    case 3
    with assms(2) document_handler_calls [of ps e m] show ?thesis by auto
  next
    case 4
    with assms(2) audio_handler_calls [of ps e m] show ?thesis by auto
  next
    case 5
    with assms(2) video_handler_calls [of ps e m] show ?thesis by auto
  qed
qed

theorem parts_never_empty_witness:
  "CallGemini [text_part (JStr (''Extracted text from PDF:'' @ [nl] @ ''Hello'' @ [nl, nl]
                     @ ''World'' @ [nl, nl] @ ''Please summarize.''))]
     \<in> set (fst (document_handler working pdf_message))
   \<and> [text_part (JStr (''Extracted text from PDF:'' @ [nl] @ ''Hello'' @ [nl, nl]
                     @ ''World'' @ [nl, nl] @ ''Please summarize.''))] \<noteq> []"
proof -
  let ?ps = "[text_part (JStr (''Extracted text from PDF:'' @ [nl] @ ''Hello'' @ [nl, nl]
                     @ ''World'' @ [nl, nl] @ ''Please summarize.''))]"
  have h: "CallGemini ?ps \<in> set (fst (document_handler working pdf_message))"
    by (simp add: pdf_run)
  have "document_handler
          \<in> {text_handler, photo_handler, document_handler, audio_handler, video_handler}"
    by simp
  from parts_never_empty [OF this h] h show ?thesis by blast
qed



text \<open>
  C10. If the response has a 2xx status and its body does not parse as JSON,
  \<open>call_gemini\<close> raises the decoding error to its caller; the fixed fallback string
  is not returned.
\<close>

theorem unparseable_body_raises:
  assumes "post e (request_body parts) = Inr resp"
    and "200 \<le> status_code resp" and "status_code resp < 300"
    and "json_body resp = None"
  shows "call_gemini e parts = Inl JSONDecodeError"
  using assms by (simp add: call_gemini_def success_not_raised)

theorem unparseable_body_raises_witness:
  "post (platform (answers 200 None)) (request_body [text_part (JStr ''hi'')])
     = Inr \<lparr>status_code = 200, json_body = None\<rparr>
   \<and> call_gemini (platform (answers 200 None)) [text_part (JStr ''hi'')] = Inl JSONDecodeError"
proof -
  have p: "post (platform (answers 200 None)) (request_body [text_part (JStr ''hi'')])
             = Inr \<lparr>status_code = 200, json_body = None\<rparr>"
    by (simp add: platform_def answers_def)
  from unparseable_body_raises [OF p] p show ?thesis by simp
qed

end
